theory Spec2Isabelle
  imports Complex_Main
begin

section \<open>Data model of \<open>openllm/bundle/_package.py\<close>\<close>

text \<open>
  Exceptions are values. \<open>RuntimeError\<close> is raised by \<open>build_editable\<close> itself,
  \<open>KeyError\<close> by a subscript or a format field that is absent, \<open>ValueError\<close> by a malformed
  format string, \<open>MissingDependencyError\<close> by the falcon package's availability check, and
  \<open>ExternalError\<close> stands for any exception of a library that the code lets through.
\<close>

datatype error =
    RuntimeError string
  | KeyError string
  | ValueError string
  | MissingDependencyError
  | ExternalError string

text \<open>A dict whose order is observable (it is serialised) is an association list.\<close>

type_synonym adapter_map = "(string \<times> string) list"

text \<open>\<open>bentoml.Tag\<close>: the code reads \<open>name\<close> and \<open>version\<close> and renders it with \<open>str\<close>.\<close>

record tag =
  tag_name :: string
  tag_version :: "string option"

text \<open>The keys of \<open>llm.config\<close> that the code reads.\<close>

record llm_config =
  cfg_requirements :: "string list option"
  cfg_timeout :: int
  cfg_serialisation :: string
  cfg_start_name :: string
  cfg_service_name :: string

text \<open>
  The attributes of \<open>llm\<close> that the code reads; \<open>llm_backend\<close> is \<open>__llm_backend__\<close>,
  \<open>llm_serialisation\<close> is \<open>_serialisation\<close>, \<open>max_model_len\<close> is \<open>_max_model_len\<close> and
  \<open>gpu_memory_utilization\<close> is \<open>_gpu_memory_utilization\<close> (a Python float, only ever rendered).
\<close>

record llm =
  model_id :: string
  llm_tag :: tag
  config :: llm_config
  identifying_params :: "(string \<times> string) list"
  llm_type :: string
  llm_backend :: string
  llm_serialisation :: string
  trust_remote_code :: bool
  max_model_len :: "int option"
  gpu_memory_utilization :: real

text \<open>
  The effects of the module on the outside, in the order they happen:
  \<open>llm_fs.writetext(path, contents)\<close> and one run of the isolated wheel build
  (lines 29 to 34) for a project directory and an output directory.
\<close>

datatype effect =
    WriteText string string
  | BuildWheel string string

type_synonym trace = "effect list"

text \<open>The staging filesystem object \<open>llm_fs\<close>: its methods that return values.\<close>

record llm_fs =
  getsyspath :: "string \<Rightarrow> string"
  walk_files :: "trace \<Rightarrow> string list"

text \<open>The arguments of \<open>process_environ\<close> (line 59), in the order of its call.\<close>

record process_environ_args =
  pe_config :: llm_config
  pe_server_timeout :: int
  pe_process_workers :: real
  pe_device :: "string option"
  pe_cors_enabled :: bool
  pe_model_id :: string
  pe_adapter_map :: "adapter_map option"
  pe_serialisation :: string
  pe_llm :: llm
  pe_use_current_env :: bool

record PythonOptions =
  packages :: "string list"
  wheels :: "string list option"
  lock_packages :: bool

record DockerOptions =
  python_version :: string
  env :: "string \<rightharpoonup> string"
  dockerfile_template :: "string option"

record ModelSpec =
  ms_tag :: string
  ms_alias :: string

record BentoBuildConfig =
  bc_service :: string
  bc_name :: string
  bc_labels :: "string \<rightharpoonup> string"
  bc_models :: "ModelSpec list"
  bc_description :: string
  bc_include :: "string list"
  bc_exclude :: "string list"
  bc_python :: PythonOptions
  bc_docker :: DockerOptions

text \<open>The arguments of \<open>bentoml.Bento.create\<close> (lines 110 to 124).\<close>

record bento_request =
  br_version :: "string option"
  br_build_ctx :: string
  br_build_config :: BentoBuildConfig

text \<open>
  Everything the module calls and does not define is a field of the world: the helpers of
  \<open>openllm_core.utils\<close> and \<open>openllm_cli\<close>, \<open>RefResolver\<close>, the standard library
  (\<open>pathlib\<close>, \<open>os.path\<close>, \<open>importlib.metadata\<close>, \<open>str\<close> of a tag and of a float),
  \<open>orjson\<close>, the \<open>build\<close> package and \<open>bentoml\<close>. Those that read the filesystem take the
  trace of effects so far. \<open>import_build\<close> is the outcome of the two imports of lines 21
  and 22 (\<open>None\<close> when they succeed); \<open>source_locations\<close> is the outcome of
  \<open>pkg.source_locations\<close>, which returns a location or \<open>None\<close> and raises for a module
  that is not a package; \<open>build_wheel\<close> is the outcome of the isolated build.
\<close>

record 'b world =
  check_bool_env :: "string \<Rightarrow> bool \<Rightarrow> bool"
  first_not_none :: "string option \<Rightarrow> string \<Rightarrow> string"
  source_locations :: "string \<Rightarrow> error + string option"
  path_parent :: "string \<Rightarrow> string"
  path_join :: "string \<Rightarrow> string \<Rightarrow> string"
  isfile :: "trace \<Rightarrow> string \<Rightarrow> bool"
  import_build :: "error option"
  build_wheel :: "trace \<Rightarrow> string \<Rightarrow> string \<Rightarrow> error + string"
  release_version :: string
  metadata_version :: "string \<Rightarrow> string"
  process_environ :: "process_environ_args \<Rightarrow> (string \<rightharpoonup> string)"
  orjson_dumps :: "adapter_map option \<Rightarrow> string"
  str_tag :: "tag \<Rightarrow> string"
  str_float :: "real \<Rightarrow> string"
  service_src :: string
  bento_create :: "trace \<Rightarrow> bento_request \<Rightarrow> error + 'b"

section \<open>Python built-ins used by the module\<close>

text \<open>\<open>str\<close> of an int (decimal), of a bool, and of an optional int.\<close>

fun str_nat :: "nat \<Rightarrow> string" where
  "str_nat n =
     (if n < 10 then [''0123456789'' ! n]
      else str_nat (n div 10) @ [''0123456789'' ! (n mod 10)])"

declare str_nat.simps [simp del]

definition str_int :: "int \<Rightarrow> string" where
  "str_int i = (if i < 0 then CHR ''-'' # str_nat (nat (- i)) else str_nat (nat i))"

definition str_bool :: "bool \<Rightarrow> string" where
  "str_bool b = (if b then ''True'' else ''False'')"

definition str_opt_int :: "int option \<Rightarrow> string" where
  "str_opt_int v = (case v of None \<Rightarrow> ''None'' | Some i \<Rightarrow> str_int i)"

text \<open>Truthiness of an optional string: \<open>None\<close> and the empty string are falsy.\<close>

definition truthy :: "string option \<Rightarrow> bool" where
  "truthy v = (case v of None \<Rightarrow> False | Some s \<Rightarrow> s \<noteq> [])"

text \<open>\<open>s.split(c)\<close> for a one-character separator: never empty.\<close>

fun split_chr :: "char \<Rightarrow> string \<Rightarrow> string list" where
  "split_chr sep [] = [[]]"
| "split_chr sep (c # cs) =
     (if c = sep then [] # split_chr sep cs
      else (case split_chr sep cs of
              [] \<Rightarrow> [[c]]
            | p # ps \<Rightarrow> (c # p) # ps))"

text \<open>\<open>s.replace(a, b)\<close> for one-character \<open>a\<close> and \<open>b\<close>.\<close>

definition replace_chr :: "char \<Rightarrow> char \<Rightarrow> string \<Rightarrow> string" where
  "replace_chr a b s = map (\<lambda>c. if c = a then b else c) s"

text \<open>
  \<open>template.format(**kw)\<close> for templates whose replacement fields are plain names (no
  conversion, no format specification), every value already rendered by \<open>str\<close>. The
  second argument is \<open>Some n\<close> inside a field whose name read so far is \<open>n\<close>. A doubled
  brace is a literal brace.
\<close>

fun py_format :: "(string \<rightharpoonup> string) \<Rightarrow> string option \<Rightarrow> string \<Rightarrow> error + string" where
  "py_format kw None [] = Inr []"
| "py_format kw (Some n) [] = Inl (ValueError ''expected } before end of string'')"
| "py_format kw None (c # cs) =
     (if c = CHR ''{'' then py_format kw (Some []) cs
      else if c = CHR ''}'' then
        (case cs of
           [] \<Rightarrow> Inl (ValueError ''Single } encountered in format string'')
         | d # ds \<Rightarrow>
             if d = CHR ''}'' then map_sum id ((#) c) (py_format kw None ds)
             else Inl (ValueError ''Single } encountered in format string''))
      else map_sum id ((#) c) (py_format kw None cs))"
| "py_format kw (Some n) (c # cs) =
     (if c = CHR ''{'' \<and> n = [] then map_sum id ((#) c) (py_format kw None cs)
      else if c = CHR ''{'' then Inl (ValueError ''unexpected { in field name'')
      else if c = CHR ''}'' then
        (case kw n of
           None \<Rightarrow> Inl (KeyError n)
         | Some v \<Rightarrow> map_sum id ((@) v) (py_format kw None cs))
      else py_format kw (Some (n @ [c])) cs)"

section \<open>The module\<close>

definition OPENLLM_DEV_BUILD :: string where
  "OPENLLM_DEV_BUILD = ''OPENLLM_DEV_BUILD''"

text \<open>Line 13. The three double quotes around the adapter map are \<open>CHR 0x22\<close>.\<close>

definition SERVICE_VARS :: string where
  "SERVICE_VARS =
     ''import orjson;model_id,model_tag,adapter_map,serialization,trust_remote_code,max_model_len,gpu_memory_utilization='{__model_id__}','{__model_tag__}',orjson.loads(''
     @ [CHR 0x22, CHR 0x22, CHR 0x22] @ ''{__model_adapter_map__}'' @ [CHR 0x22, CHR 0x22, CHR 0x22]
     @ ''),'{__model_serialization__}',{__model_trust_remote_code__},{__max_model_len__},{__gpu_memory_utilization__}''"

text \<open>
  Lines 16 to 35. The result is the returned value or the exception, with the trace
  extended by the effects of the call.
\<close>

definition build_editable ::
  "'b world \<Rightarrow> string \<Rightarrow> string \<Rightarrow> trace \<Rightarrow> (error + string option) \<times> trace" where
  "build_editable w path package t =
     (if \<not> check_bool_env w OPENLLM_DEV_BUILD False then (Inr None, t)
      else case import_build w of
        Some e \<Rightarrow> (Inl e, t)
      | None \<Rightarrow>
         (case source_locations w package of
            Inl e \<Rightarrow> (Inl e, t)
          | Inr None \<Rightarrow>
              (Inl (RuntimeError ''Could not find the source location of OpenLLM.''), t)
          | Inr (Some module_location) \<Rightarrow>
             if module_location = [] then
               (Inl (RuntimeError ''Could not find the source location of OpenLLM.''), t)
             else
               let pyproject_path =
                     path_join w (path_parent w (path_parent w module_location)) ''pyproject.toml''
               in if isfile w t pyproject_path then
                    (case build_wheel w t (path_parent w pyproject_path) path of
                       Inl e \<Rightarrow> (Inl e, t @ [BuildWheel (path_parent w pyproject_path) path])
                     | Inr whl \<Rightarrow>
                         (Inr (Some whl), t @ [BuildWheel (path_parent w pyproject_path) path]))
                  else
                    (Inl (RuntimeError
                       ''Please install OpenLLM from PyPI or built it from Git source.''), t)))"

text \<open>Line 48: the list comprehension calls \<open>build_editable\<close> for each package in turn.\<close>

fun build_wheels ::
  "'b world \<Rightarrow> string \<Rightarrow> string list \<Rightarrow> trace \<Rightarrow> (error + string option list) \<times> trace" where
  "build_wheels w path [] t = (Inr [], t)"
| "build_wheels w path (p # ps) t =
     (case build_editable w path p t of
        (Inl e, t') \<Rightarrow> (Inl e, t')
      | (Inr r, t') \<Rightarrow>
          (case build_wheels w path ps t' of
             (Inl e, t'') \<Rightarrow> (Inl e, t'')
           | (Inr rs, t'') \<Rightarrow> (Inr (r # rs), t'')))"

text \<open>Lines 41 to 47: the package list.\<close>

definition python_packages ::
  "'b world \<Rightarrow> llm \<Rightarrow> string list option \<Rightarrow> adapter_map option \<Rightarrow> string list" where
  "python_packages w l extra_dependencies adapter_map =
     [''scipy'', ''bentoml[tracing]>=1.1.11,<1.2'', ''openllm[vllm]>='' @ release_version w]
     @ (if adapter_map \<noteq> None then [''openllm[fine-tune]''] else [])
     @ (case extra_dependencies of
          None \<Rightarrow> []
        | Some ks \<Rightarrow> map (\<lambda>k. ''openllm['' @ k @ '']'') ks)
     @ (case cfg_requirements (config l) of None \<Rightarrow> [] | Some rs \<Rightarrow> rs)"

text \<open>Line 51: the wheels, from the results of the three builds.\<close>

definition wheels_of :: "llm_fs \<Rightarrow> string option list \<Rightarrow> string list option" where
  "wheels_of fs built_wheels =
     (if list_all truthy built_wheels then
        Some (map (\<lambda>i. getsyspath fs (CHR ''/'' # last (split_chr CHR ''/'' (case i of None \<Rightarrow> [] | Some s \<Rightarrow> s))))
                built_wheels)
      else None)"

text \<open>Lines 38 to 53.\<close>

definition construct_python_options ::
  "'b world \<Rightarrow> llm \<Rightarrow> llm_fs \<Rightarrow> string list option \<Rightarrow> adapter_map option \<Rightarrow> trace
     \<Rightarrow> (error + PythonOptions) \<times> trace" where
  "construct_python_options w l fs extra_dependencies adapter_map t =
     (let pkgs = python_packages w l extra_dependencies adapter_map in
      case build_wheels w (getsyspath fs ''/'') [''openllm_core'', ''openllm_client'', ''openllm''] t of
        (Inl e, t') \<Rightarrow> (Inl e, t')
      | (Inr built_wheels, t') \<Rightarrow>
          (Inr \<lparr>packages = pkgs, wheels = wheels_of fs built_wheels, lock_packages = False\<rparr>, t'))"

text \<open>
  Lines 56 to 64. The second, third, fourth and sixth parameters are not read by the body;
  \<open>process_environ\<close> is given \<open>llm._serialisation\<close>.
\<close>

definition construct_docker_options ::
  "'b world \<Rightarrow> llm \<Rightarrow> llm_fs \<Rightarrow> string option \<Rightarrow> adapter_map option \<Rightarrow> string option \<Rightarrow> string
     \<Rightarrow> error + DockerOptions" where
  "construct_docker_options w l fs quantize adapter_map dockerfile_templ serialisation =
     (let environ = process_environ w
            \<lparr>pe_config = config l, pe_server_timeout = cfg_timeout (config l),
             pe_process_workers = 1, pe_device = None, pe_cors_enabled = True,
             pe_model_id = model_id l, pe_adapter_map = None,
             pe_serialisation = llm_serialisation l, pe_llm = l, pe_use_current_env = False\<rparr>
      in case environ ''OPENLLM_CONFIG'' of
           None \<Rightarrow> Inl (KeyError ''OPENLLM_CONFIG'')
         | Some c \<Rightarrow>
             let environ1 = environ(''OPENLLM_CONFIG'' \<mapsto> [CHR 0x27] @ c @ [CHR 0x27]);
                 environ2 = environ1(''BENTOML_HOME'' := None);
                 environ3 = environ2(''NVIDIA_DRIVER_CAPABILITIES'' \<mapsto> ''compute,utility'')
             in Inr \<lparr>python_version = ''3.11'', env = environ3,
                     dockerfile_template = dockerfile_templ\<rparr>)"

text \<open>\<open>d.update(other)\<close>: the entries of \<open>other\<close> are stored in order.\<close>

definition dict_update :: "(string \<rightharpoonup> string) \<Rightarrow> (string \<times> string) list \<Rightarrow> (string \<rightharpoonup> string)" where
  "dict_update d other = foldl (\<lambda>m kv. m(fst kv \<mapsto> snd kv)) d other"

text \<open>Lines 82 to 89: the dict literal given to \<open>labels.update\<close>.\<close>

definition label_entries :: "'b world \<Rightarrow> llm \<Rightarrow> (string \<times> string) list" where
  "label_entries w l =
     [(''_type'', llm_type l),
      (''_framework'', llm_backend l),
      (''start_name'', cfg_start_name (config l)),
      (''base_name_or_path'', model_id l),
      (''bundler'', ''openllm.bundle'')]
     @ map (\<lambda>package. (replace_chr CHR ''-'' CHR ''_'' package @ ''_version'',
                         metadata_version w package))
         [''openllm'', ''openllm-core'', ''openllm-client'']"

text \<open>Lines 81 to 91: the labels.\<close>

definition bento_labels :: "'b world \<Rightarrow> llm \<Rightarrow> adapter_map option \<Rightarrow> (string \<rightharpoonup> string)" where
  "bento_labels w l adapter_map =
     (let labels0 = dict_update Map.empty (identifying_params l);
          labels1 = dict_update labels0 (label_entries w l)
      in case adapter_map of
           None \<Rightarrow> labels1
         | Some am \<Rightarrow> if am \<noteq> [] then dict_update labels1 am else labels1)"

text \<open>Lines 95 to 103: the generated script.\<close>

definition service_vars_script :: "'b world \<Rightarrow> llm \<Rightarrow> adapter_map option \<Rightarrow> error + string" where
  "service_vars_script w l adapter_map =
     map_sum id
       ((@) (''# fmt: off'' @ [CHR 0x0A] @ ''# GENERATED BY 'openllm build '' @ model_id l
             @ [CHR 0x27] @ ''. DO NOT EDIT'' @ [CHR 0x0A]))
       (py_format
          [''__model_id__'' \<mapsto> model_id l,
           ''__model_tag__'' \<mapsto> str_tag w (llm_tag l),
           ''__model_adapter_map__'' \<mapsto> orjson_dumps w adapter_map,
           ''__model_serialization__'' \<mapsto> cfg_serialisation (config l),
           ''__model_trust_remote_code__'' \<mapsto> str_bool (trust_remote_code l),
           ''__max_model_len__'' \<mapsto> str_opt_int (max_model_len l),
           ''__gpu_memory_utilization__'' \<mapsto> str_float w (gpu_memory_utilization l)]
          None SERVICE_VARS)"

text \<open>
  Lines 68 to 123, up to the call of \<open>bentoml.Bento.create\<close>: the effects and the arguments
  of that call. The arguments are evaluated in the order they are written: the file walk,
  then the Python options, then the Docker options.
\<close>

definition create_bento_args ::
  "'b world \<Rightarrow> tag \<Rightarrow> llm_fs \<Rightarrow> llm \<Rightarrow> string option \<Rightarrow> string option \<Rightarrow> adapter_map option
     \<Rightarrow> string list option \<Rightarrow> string option \<Rightarrow> trace \<Rightarrow> (error + bento_request) \<times> trace" where
  "create_bento_args w bento_tag fs l quantize dockerfile_templ adapter_map extra_dependencies
       serialisation t =
     (let serialisation' = first_not_none w serialisation (cfg_serialisation (config l));
          labels = bento_labels w l adapter_map
      in case service_vars_script w l adapter_map of
           Inl e \<Rightarrow> (Inl e, t)
         | Inr script \<Rightarrow>
           (let t1 = t @ [WriteText ''_service_vars.py'' script];
                t2 = t1 @ [WriteText (cfg_service_name (config l)) (service_src w)];
                include = walk_files fs t2
            in case construct_python_options w l fs extra_dependencies adapter_map t2 of
                 (Inl e, t3) \<Rightarrow> (Inl e, t3)
               | (Inr python, t3) \<Rightarrow>
                  (case construct_docker_options w l fs quantize adapter_map dockerfile_templ
                          serialisation' of
                     Inl e \<Rightarrow> (Inl e, t3)
                   | Inr docker \<Rightarrow>
                      (Inr \<lparr>br_version = tag_version bento_tag,
                            br_build_ctx = getsyspath fs ''/'',
                            br_build_config =
                              \<lparr>bc_service = cfg_service_name (config l) @ '':svc'',
                               bc_name = tag_name bento_tag,
                               bc_labels = labels,
                               bc_models = [\<lparr>ms_tag = str_tag w (llm_tag l),
                                             ms_alias = tag_name (llm_tag l)\<rparr>],
                               bc_description =
                                 ''OpenLLM service for '' @ cfg_start_name (config l),
                               bc_include = include,
                               bc_exclude = [''/venv'', ''/.venv'', ''__pycache__/'',
                                             ''*.py[cod]'', ''*$py.class''],
                               bc_python = python,
                               bc_docker = docker\<rparr>\<rparr>, t3))))"

text \<open>
  Lines 68 to 124. The two injected stores are arguments of the external \<open>save\<close> only and
  are part of \<open>bento_create\<close>, which stands for \<open>Bento.create(...).save(...)\<close>.
\<close>

definition create_bento ::
  "'b world \<Rightarrow> tag \<Rightarrow> llm_fs \<Rightarrow> llm \<Rightarrow> string option \<Rightarrow> string option \<Rightarrow> adapter_map option
     \<Rightarrow> string list option \<Rightarrow> string option \<Rightarrow> trace \<Rightarrow> (error + 'b) \<times> trace" where
  "create_bento w bento_tag fs l quantize dockerfile_templ adapter_map extra_dependencies
       serialisation t =
     (case create_bento_args w bento_tag fs l quantize dockerfile_templ adapter_map
             extra_dependencies serialisation t of
        (Inl e, t') \<Rightarrow> (Inl e, t')
      | (Inr request, t') \<Rightarrow> (bento_create w t' request, t'))"

section \<open>The falcon package: \<open>openllm/models/falcon/__init__.py\<close>\<close>

text \<open>
  Lines 21 to 31. The argument is the value of \<open>openllm.utils.is_torch_available()\<close>. The
  body of the \<open>try\<close> raises when it is false; the handler catches exactly that exception.
\<close>

definition torch_check :: "bool \<Rightarrow> error + unit" where
  "torch_check torch_available =
     (if \<not> torch_available then Inl MissingDependencyError else Inr ())"

definition import_structure :: "bool \<Rightarrow> error + (string \<times> string list) list" where
  "import_structure torch_available =
     (let base = [(''configuration_falcon'',
                   [''FalconConfig'', ''START_FALCON_COMMAND_DOCSTRING'',
                    ''DEFAULT_PROMPT_TEMPLATE''])]
      in case torch_check torch_available of
           Inl MissingDependencyError \<Rightarrow> Inr base
         | Inl other \<Rightarrow> Inl other
         | Inr u \<Rightarrow> Inr (base @ [(''modeling_falcon'', [''Falcon''])]))"

section \<open>Concrete inputs\<close>

text \<open>
  Two worlds on which the theorems are instantiated. In \<open>release_world\<close> the variable
  \<open>OPENLLM_DEV_BUILD\<close> is not set, so the check returns its default; in \<open>dev_world\<close> it is
  set, every package has a source location with a \<open>pyproject.toml\<close> two levels up, and
  the build of a project writes a wheel named after the project directory. In
  \<open>broken_build_world\<close> the build backend fails.
\<close>

fun join_str :: "string \<Rightarrow> string list \<Rightarrow> string" where
  "join_str sep [] = []"
| "join_str sep [x] = x"
| "join_str sep (x # y # ys) = x @ sep @ join_str sep (y # ys)"

definition example_dumps :: "adapter_map option \<Rightarrow> string" where
  "example_dumps am =
     (case am of
        None \<Rightarrow> ''null''
      | Some kvs \<Rightarrow>
          ''{'' @ join_str '',''
                   (map (\<lambda>kv. [CHR 0x22] @ fst kv @ [CHR 0x22] @ '':'' @ [CHR 0x22] @ snd kv
                               @ [CHR 0x22]) kvs) @ ''}'')"

definition example_parent :: "string \<Rightarrow> string" where
  "example_parent p = rev (drop 1 (dropWhile (\<lambda>c. c \<noteq> CHR ''/'') (rev p)))"

definition release_world :: "bento_request world" where
  "release_world =
     \<lparr>check_bool_env = (\<lambda>name default. default),
      first_not_none = (\<lambda>v default. case v of None \<Rightarrow> default | Some x \<Rightarrow> x),
      source_locations = (\<lambda>package. Inr None),
      path_parent = example_parent,
      path_join = (\<lambda>a b. a @ ''/'' @ b),
      isfile = (\<lambda>t p. False),
      import_build = None,
      build_wheel = (\<lambda>t project outdir. Inl (ExternalError ''BuildException'')),
      release_version = ''0.4.44'',
      metadata_version = (\<lambda>package. ''0.4.44''),
      process_environ =
        (\<lambda>a. [''OPENLLM_CONFIG'' \<mapsto> ''{}'', ''BENTOML_HOME'' \<mapsto> ''/home/user/bentoml'',
              ''OPENLLM_MODEL_ID'' \<mapsto> pe_model_id a]),
      orjson_dumps = example_dumps,
      str_tag = (\<lambda>g. case tag_version g of None \<Rightarrow> tag_name g
                                          | Some v \<Rightarrow> tag_name g @ '':'' @ v),
      str_float = (\<lambda>r. ''0.9''),
      service_src = ''svc = None'',
      bento_create = (\<lambda>t request. Inr request)\<rparr>"

definition dev_world :: "bento_request world" where
  "dev_world =
     release_world
       \<lparr>check_bool_env := (\<lambda>name default. True),
        source_locations :=
          (\<lambda>package. Inr (Some (''/repo/'' @ package @ ''/src/'' @ package))),
        isfile := (\<lambda>t p. True),
        build_wheel :=
          (\<lambda>t project outdir.
             Inr (outdir @ ''/'' @ last (split_chr CHR ''/'' project) @ ''-0.4.44.whl''))\<rparr>"

definition broken_build_world :: "bento_request world" where
  "broken_build_world =
     dev_world
       \<lparr>build_wheel := (\<lambda>t project outdir. Inl (ExternalError ''BuildBackendException''))\<rparr>"

definition example_llm :: llm where
  "example_llm =
     \<lparr>model_id = ''facebook/opt-125m'',
      llm_tag = \<lparr>tag_name = ''vllm-facebook--opt-125m'', tag_version = Some ''27dcfa7''\<rparr>,
      config = \<lparr>cfg_requirements = None, cfg_timeout = 3600,
                cfg_serialisation = ''safetensors'', cfg_start_name = ''opt'',
                cfg_service_name = ''generated_opt_service.py''\<rparr>,
      identifying_params = [(''model_id'', ''facebook/opt-125m'')],
      llm_type = ''opt'',
      llm_backend = ''vllm'',
      llm_serialisation = ''safetensors'',
      trust_remote_code = False,
      max_model_len = Some 2048,
      gpu_memory_utilization = 9 / 10\<rparr>"

text \<open>The same model under a local path with a single quote, and with a line feed.\<close>

definition quote_llm :: llm where
  "quote_llm = example_llm\<lparr>model_id := ''/models/o'brien/opt-125m''\<rparr>"

definition newline_llm :: llm where
  "newline_llm = example_llm\<lparr>model_id := ''/models/opt'' @ [CHR 0x0A] @ ''125m''\<rparr>"

definition example_fs :: llm_fs where
  "example_fs = \<lparr>getsyspath = (\<lambda>p. ''/tmp/stage'' @ p), walk_files = (\<lambda>t. [])\<rparr>"

definition example_tag :: tag where
  "example_tag = \<lparr>tag_name = ''facebook--opt-125m-service'', tag_version = Some ''27dcfa7''\<rparr>"

section \<open>Observations\<close>

text \<open>The texts written to a path, in the order of the writes.\<close>

fun written :: "string \<Rightarrow> trace \<Rightarrow> string list" where
  "written path [] = []"
| "written path (WriteText p contents # t) =
     (if p = path then contents # written path t else written path t)"
| "written path (BuildWheel project outdir # t) = written path t"

text \<open>The labels of the request that a call produced; none when it raised.\<close>

definition labels_of :: "error + bento_request \<Rightarrow> (string \<rightharpoonup> string)" where
  "labels_of r = (case r of Inl e \<Rightarrow> Map.empty | Inr request \<Rightarrow> bc_labels (br_build_config request))"

section \<open>The wheel builder\<close>

lemma build_wheels_release:
  "\<not> check_bool_env w OPENLLM_DEV_BUILD False \<Longrightarrow>
     build_wheels w path ps t = (Inr (map (\<lambda>p. None) ps), t)"
  by (induction ps) (simp_all add: build_editable_def)

text \<open>
  C2. When the development-mode check on \<open>OPENLLM_DEV_BUILD\<close> is false, \<open>build_editable\<close>
  returns \<open>None\<close> and has no effect, whatever the path and the package: the trace of
  writes and builds is the one it was given.
\<close>

theorem build_editable_noop_without_dev_flag:
  assumes "\<not> check_bool_env w OPENLLM_DEV_BUILD False"
  shows "build_editable w path package t = (Inr None, t)"
  using assms by (simp add: build_editable_def)

theorem build_editable_noop_witness:
  "\<not> check_bool_env release_world OPENLLM_DEV_BUILD False
   \<and> build_editable release_world ''/tmp/stage/'' ''openllm''
        [WriteText ''_service_vars.py'' ''x=1'']
      = (Inr None, [WriteText ''_service_vars.py'' ''x=1''])"
  using build_editable_noop_without_dev_flag
          [of release_world "''/tmp/stage/''" "''openllm''"
              "[WriteText ''_service_vars.py'' ''x=1'']"]
  by (simp add: release_world_def)

text \<open>
  C6, as stated, says that with the flag set \<open>build_editable\<close> fails in exactly two cases
  and returns the wheel path in every other. It does not: with a source location and a
  \<open>pyproject.toml\<close> in place, a failure of the build is a third failure, passed on as it is.
\<close>

theorem build_editable_build_failure_counterexample:
  "check_bool_env broken_build_world OPENLLM_DEV_BUILD False
   \<and> source_locations broken_build_world ''openllm''
      = Inr (Some ''/repo/openllm/src/openllm'')
   \<and> isfile broken_build_world [] ''/repo/openllm/pyproject.toml''
   \<and> build_editable broken_build_world ''/tmp/stage/'' ''openllm'' []
      = (Inl (ExternalError ''BuildBackendException''),
         [BuildWheel ''/repo/openllm'' ''/tmp/stage/''])"
  by (simp add: build_editable_def broken_build_world_def dev_world_def release_world_def
        example_parent_def)

text \<open>
  C6, amended. With the flag set, \<open>build_editable\<close> raises a \<open>RuntimeError\<close> of its own in
  exactly two cases, before any effect: the source location found is \<open>None\<close> or empty, or
  the \<open>pyproject.toml\<close> two levels above it is not a file. It has no handler: an exception
  of the imports of the \<open>build\<close> package or of the lookup of the source location is passed
  on as it is, before any effect, and so is an exception of the build. When none of these
  happens it runs the build once and returns the path of the wheel.
\<close>

theorem build_editable_dev_outcomes:
  assumes "check_bool_env w OPENLLM_DEV_BUILD False"
  shows "(\<forall>e. import_build w = Some e \<longrightarrow> build_editable w path package t = (Inl e, t))
       \<and> (import_build w = None \<longrightarrow>
            (\<forall>e. source_locations w package = Inl e \<longrightarrow>
                   build_editable w path package t = (Inl e, t))
          \<and> (\<forall>found. source_locations w package = Inr found \<and> \<not> truthy found \<longrightarrow>
                build_editable w path package t
                = (Inl (RuntimeError ''Could not find the source location of OpenLLM.''), t))
          \<and> (\<forall>loc. source_locations w package = Inr (Some loc) \<and> loc \<noteq> [] \<longrightarrow>
               (let pyproject = path_join w (path_parent w (path_parent w loc)) ''pyproject.toml'';
                    done = t @ [BuildWheel (path_parent w pyproject) path]
                in build_editable w path package t
                   = (if \<not> isfile w t pyproject then
                        (Inl (RuntimeError
                           ''Please install OpenLLM from PyPI or built it from Git source.''), t)
                      else case build_wheel w t (path_parent w pyproject) path of
                             Inl e \<Rightarrow> (Inl e, done)
                           | Inr whl \<Rightarrow> (Inr (Some whl), done)))))"
  using assms
  by (auto simp: build_editable_def truthy_def Let_def split: option.splits sum.splits)

theorem build_editable_dev_outcomes_witness:
  "check_bool_env dev_world OPENLLM_DEV_BUILD False \<and> import_build dev_world = None
   \<and> source_locations dev_world ''openllm'' = Inr (Some ''/repo/openllm/src/openllm'')
   \<and> build_editable dev_world ''/tmp/stage/'' ''openllm'' []
      = (Inr (Some ''/tmp/stage//openllm-0.4.44.whl''),
         [BuildWheel ''/repo/openllm'' ''/tmp/stage/''])
   \<and> build_editable (dev_world\<lparr>isfile := (\<lambda>t p. False)\<rparr>) ''/tmp/stage/'' ''openllm'' []
      = (Inl (RuntimeError ''Please install OpenLLM from PyPI or built it from Git source.''), [])
   \<and> build_editable (dev_world\<lparr>source_locations := (\<lambda>p. Inr (Some []))\<rparr>) ''/tmp/stage/''
        ''openllm'' []
      = (Inl (RuntimeError ''Could not find the source location of OpenLLM.''), [])
   \<and> build_editable (dev_world\<lparr>source_locations := (\<lambda>p. Inl (ExternalError ''TypeError''))\<rparr>)
        ''/tmp/stage/'' ''os'' []
      = (Inl (ExternalError ''TypeError''), [])
   \<and> build_editable (dev_world\<lparr>import_build := Some (ExternalError ''ModuleNotFoundError'')\<rparr>)
        ''/tmp/stage/'' ''openllm'' []
      = (Inl (ExternalError ''ModuleNotFoundError''), [])"
  using build_editable_dev_outcomes
          [of dev_world "''/tmp/stage/''" "''openllm''" "[]"]
        build_editable_dev_outcomes
          [of "dev_world\<lparr>isfile := (\<lambda>t p. False)\<rparr>" "''/tmp/stage/''" "''openllm''" "[]"]
        build_editable_dev_outcomes
          [of "dev_world\<lparr>source_locations := (\<lambda>p. Inr (Some []))\<rparr>" "''/tmp/stage/''"
              "''openllm''" "[]"]
        build_editable_dev_outcomes
          [of "dev_world\<lparr>source_locations := (\<lambda>p. Inl (ExternalError ''TypeError''))\<rparr>"
              "''/tmp/stage/''" "''os''" "[]"]
        build_editable_dev_outcomes
          [of "dev_world\<lparr>import_build := Some (ExternalError ''ModuleNotFoundError'')\<rparr>"
              "''/tmp/stage/''" "''openllm''" "[]"]
  by (simp add: dev_world_def release_world_def example_parent_def truthy_def Let_def)

section \<open>The Python options\<close>

lemma build_wheels_length:
  "build_wheels w path ps t = (Inr built, t') \<Longrightarrow> length built = length ps"
proof (induction ps arbitrary: t built t')
  case Nil
  then show ?case by simp
next
  case (Cons p ps)
  obtain r t1 where e: "build_editable w path p t = (r, t1)" by (cases "build_editable w path p t")
  show ?case
  proof (cases r)
    case (Inl x)
    with Cons.prems e show ?thesis by simp
  next
    case (Inr v)
    obtain rs t2 where b: "build_wheels w path ps t1 = (rs, t2)" by (cases "build_wheels w path ps t1")
    show ?thesis
    proof (cases rs)
      case (Inl y)
      with Cons.prems e Inr b show ?thesis by simp
    next
      case (Inr vs)
      with Cons.prems e \<open>r = Inr v\<close> b have "built = v # vs" by simp
      moreover from Cons.IH b Inr have "length vs = length ps" by simp
      ultimately show ?thesis by simp
    qed
  qed
qed

lemma construct_python_options_result:
  assumes "construct_python_options w l fs ed am t = (Inr opts, t')"
  shows "\<exists>built. build_wheels w (getsyspath fs ''/'') [''openllm_core'', ''openllm_client'', ''openllm''] t
                   = (Inr built, t')
               \<and> opts = \<lparr>packages = python_packages w l ed am, wheels = wheels_of fs built,
                          lock_packages = False\<rparr>"
proof -
  let ?b = "build_wheels w (getsyspath fs ''/'') [''openllm_core'', ''openllm_client'', ''openllm''] t"
  obtain r t1 where b: "?b = (r, t1)" by (cases ?b)
  show ?thesis
  proof (cases r)
    case (Inl e)
    with assms b show ?thesis
      by (simp add: construct_python_options_def Let_def del: build_wheels.simps)
  next
    case (Inr built)
    with assms b show ?thesis
      by (simp add: construct_python_options_def Let_def del: build_wheels.simps)
  qed
qed


lemma construct_python_options_release:
  assumes "\<not> check_bool_env w OPENLLM_DEV_BUILD False"
  shows "construct_python_options w l fs ed am t
         = (Inr \<lparr>packages = python_packages w l ed am, wheels = None, lock_packages = False\<rparr>, t)"
  by (simp add: construct_python_options_def build_wheels_release[OF assms] wheels_of_def
        truthy_def del: build_wheels.simps)

lemma append4_mono:
  "set a \<subseteq> set a' \<Longrightarrow> set b \<subseteq> set b' \<Longrightarrow> set (c @ a @ b @ d) \<subseteq> set (c @ a' @ b' @ d)"
  by auto

lemma python_packages_core:
  "{''scipy'', ''bentoml[tracing]>=1.1.11,<1.2'', ''openllm[vllm]>='' @ release_version w}
     \<subseteq> set (python_packages w l ed am)"
  unfolding python_packages_def by (simp only: set_append set_simps) blast

lemma python_packages_mono:
  assumes "am = None \<or> am' \<noteq> None"
      and "ed = None \<or> (\<exists>ks ks'. ed = Some ks \<and> ed' = Some ks' \<and> set ks \<subseteq> set ks')"
  shows "set (python_packages w l ed am) \<subseteq> set (python_packages w l ed' am')"
proof -
  let ?x = "''openllm[fine-tune]''"
  let ?f = "\<lambda>k. ''openllm['' @ k @ '']''"
  have a: "set (if am \<noteq> None then [?x] else []) \<subseteq> set (if am' \<noteq> None then [?x] else [])"
    using assms(1) by (cases am; cases am') simp_all
  have b: "set (case ed of None \<Rightarrow> [] | Some ks \<Rightarrow> map ?f ks)
             \<subseteq> set (case ed' of None \<Rightarrow> [] | Some ks \<Rightarrow> map ?f ks)"
  proof (cases ed)
    case None
    then show ?thesis by simp
  next
    case (Some ks)
    with assms(2) obtain ks' where k: "ed' = Some ks'" "set ks \<subseteq> set ks'" by auto
    from k(2) have "?f ` set ks \<subseteq> ?f ` set ks'" by (rule image_mono)
    with Some k(1) show ?thesis by (simp only: option.case set_map)
  qed
  show ?thesis unfolding python_packages_def by (rule append4_mono[OF a b])
qed

text \<open>
  C3. Whenever \<open>construct_python_options\<close> returns, its package list has the three core
  requirements (\<open>scipy\<close>, \<open>bentoml[tracing]\<close> and \<open>openllm[vllm]\<close> with their version
  pins), whatever the adapter map and the extra dependencies. The list only grows: going
  from no adapter map to one, and from no extra dependencies to some or from some to more,
  every package listed before is listed after.
\<close>

theorem construct_python_options_packages_grow:
  assumes "construct_python_options w l fs ed am t = (Inr opts, t1)"
      and "construct_python_options w l fs' ed' am' t' = (Inr opts', t1')"
      and "am = None \<or> am' \<noteq> None"
      and "ed = None \<or> (\<exists>ks ks'. ed = Some ks \<and> ed' = Some ks' \<and> set ks \<subseteq> set ks')"
  shows "{''scipy'', ''bentoml[tracing]>=1.1.11,<1.2'', ''openllm[vllm]>='' @ release_version w}
           \<subseteq> set (packages opts)
       \<and> set (packages opts) \<subseteq> set (packages opts')"
proof -
  from construct_python_options_result[OF assms(1)]
  have p: "packages opts = python_packages w l ed am" by auto
  from construct_python_options_result[OF assms(2)]
  have p': "packages opts' = python_packages w l ed' am'" by auto
  show ?thesis unfolding p p'
    using python_packages_core[of w l ed am] python_packages_mono[OF assms(3,4), of w l]
    by (rule conjI)
qed

theorem construct_python_options_packages_grow_witness:
  "(\<exists>opts opts' t1 t1'.
      construct_python_options release_world example_llm example_fs None None [] = (Inr opts, t1)
    \<and> construct_python_options release_world example_llm example_fs (Some [''gptq''])
         (Some [(''user/lora'', ''default'')]) [] = (Inr opts', t1')
    \<and> packages opts = [''scipy'', ''bentoml[tracing]>=1.1.11,<1.2'', ''openllm[vllm]>=0.4.44'']
    \<and> packages opts' = [''scipy'', ''bentoml[tracing]>=1.1.11,<1.2'', ''openllm[vllm]>=0.4.44'',
                        ''openllm[fine-tune]'', ''openllm[gptq]'']
    \<and> set (packages opts) \<subseteq> set (packages opts'))"
proof -
  let ?o = "\<lparr>packages = python_packages release_world example_llm None None,
             wheels = None, lock_packages = False\<rparr>"
  let ?o' = "\<lparr>packages = python_packages release_world example_llm (Some [''gptq''])
                          (Some [(''user/lora'', ''default'')]),
             wheels = None, lock_packages = False\<rparr>"
  have f: "\<not> check_bool_env release_world OPENLLM_DEV_BUILD False"
    by (simp add: release_world_def)
  have a: "construct_python_options release_world example_llm example_fs None None []
           = (Inr ?o, [])"
    by (rule construct_python_options_release[OF f])
  have b: "construct_python_options release_world example_llm example_fs (Some [''gptq''])
         (Some [(''user/lora'', ''default'')]) [] = (Inr ?o', [])"
    by (rule construct_python_options_release[OF f])
  have c: "packages ?o = [''scipy'', ''bentoml[tracing]>=1.1.11,<1.2'', ''openllm[vllm]>=0.4.44'']"
    by (simp add: python_packages_def release_world_def example_llm_def)
  have d: "packages ?o' = [''scipy'', ''bentoml[tracing]>=1.1.11,<1.2'', ''openllm[vllm]>=0.4.44'',
                        ''openllm[fine-tune]'', ''openllm[gptq]'']"
    by (simp add: python_packages_def release_world_def example_llm_def)
  from construct_python_options_packages_grow[OF a b]
  have "set (packages ?o) \<subseteq> set (packages ?o')" by simp
  then have s: "set (packages ?o) \<subseteq> set (packages ?o')" .
  show ?thesis
    apply (intro exI conjI)
        apply (rule a)
       apply (rule b)
      apply (rule c)
     apply (rule d)
    apply (rule s)
    done
qed

text \<open>
  C10. When the development-mode check is false, \<open>construct_python_options\<close> returns
  options whose wheels are \<open>None\<close>. In general the wheels come from the three builds of
  \<open>openllm_core\<close>, \<open>openllm_client\<close> and \<open>openllm\<close>: they are listed exactly when each
  of the three returned a non-empty path, and when any returned \<open>None\<close> none is listed.
\<close>

theorem construct_python_options_wheels:
  "(\<not> check_bool_env w OPENLLM_DEV_BUILD False \<longrightarrow>
      (\<exists>opts. construct_python_options w l fs ed am t = (Inr opts, t) \<and> wheels opts = None))
   \<and> (\<forall>opts t'. construct_python_options w l fs ed am t = (Inr opts, t') \<longrightarrow>
        (\<exists>built. build_wheels w (getsyspath fs ''/'')
                    [''openllm_core'', ''openllm_client'', ''openllm''] t = (Inr built, t')
           \<and> length built = 3
           \<and> (wheels opts \<noteq> None) = (\<forall>b \<in> set built. b \<noteq> None \<and> b \<noteq> Some [])
           \<and> (None \<in> set built \<longrightarrow> wheels opts = None)))"
proof (intro conjI impI allI)
  assume f: "\<not> check_bool_env w OPENLLM_DEV_BUILD False"
  show "\<exists>opts. construct_python_options w l fs ed am t = (Inr opts, t) \<and> wheels opts = None"
    by (simp add: construct_python_options_release[OF f])
next
  fix opts t'
  assume a: "construct_python_options w l fs ed am t = (Inr opts, t')"
  from construct_python_options_result[OF a] obtain built where
    b: "build_wheels w (getsyspath fs ''/'') [''openllm_core'', ''openllm_client'', ''openllm''] t
          = (Inr built, t')"
    and o: "wheels opts = wheels_of fs built" by auto
  from build_wheels_length[OF b] have len: "length built = 3" by simp
  have t: "list_all truthy built = (\<forall>b \<in> set built. b \<noteq> None \<and> b \<noteq> Some [])"
    by (auto simp: list_all_iff truthy_def split: option.splits)
  have w: "(wheels opts \<noteq> None) = (\<forall>b \<in> set built. b \<noteq> None \<and> b \<noteq> Some [])"
    unfolding o using t by (simp add: wheels_of_def)
  from w have n: "None \<in> set built \<longrightarrow> wheels opts = None" by auto
  show "\<exists>built. build_wheels w (getsyspath fs ''/'')
                    [''openllm_core'', ''openllm_client'', ''openllm''] t = (Inr built, t')
           \<and> length built = 3
           \<and> (wheels opts \<noteq> None) = (\<forall>b \<in> set built. b \<noteq> None \<and> b \<noteq> Some [])
           \<and> (None \<in> set built \<longrightarrow> wheels opts = None)"
    by (rule exI[of _ built]) (intro conjI b len w n)
qed

lemma dev_python_options:
  "construct_python_options dev_world example_llm example_fs None None []
   = (Inr \<lparr>packages = [''scipy'', ''bentoml[tracing]>=1.1.11,<1.2'', ''openllm[vllm]>=0.4.44''],
           wheels = Some [''/tmp/stage/openllm_core-0.4.44.whl'',
                          ''/tmp/stage/openllm_client-0.4.44.whl'',
                          ''/tmp/stage/openllm-0.4.44.whl''],
           lock_packages = False\<rparr>,
      [BuildWheel ''/repo/openllm_core'' ''/tmp/stage/'',
       BuildWheel ''/repo/openllm_client'' ''/tmp/stage/'',
       BuildWheel ''/repo/openllm'' ''/tmp/stage/''])"
  by (simp add: construct_python_options_def python_packages_def wheels_of_def truthy_def
        build_editable_def dev_world_def release_world_def example_llm_def example_fs_def
        example_parent_def OPENLLM_DEV_BUILD_def)

theorem construct_python_options_wheels_witness:
  "\<not> check_bool_env release_world OPENLLM_DEV_BUILD False
   \<and> (\<exists>opts. construct_python_options release_world example_llm example_fs None None []
               = (Inr opts, []) \<and> wheels opts = None)
   \<and> construct_python_options dev_world example_llm example_fs None None []
       = (Inr \<lparr>packages = [''scipy'', ''bentoml[tracing]>=1.1.11,<1.2'', ''openllm[vllm]>=0.4.44''],
               wheels = Some [''/tmp/stage/openllm_core-0.4.44.whl'',
                              ''/tmp/stage/openllm_client-0.4.44.whl'',
                              ''/tmp/stage/openllm-0.4.44.whl''],
               lock_packages = False\<rparr>,
          [BuildWheel ''/repo/openllm_core'' ''/tmp/stage/'',
           BuildWheel ''/repo/openllm_client'' ''/tmp/stage/'',
           BuildWheel ''/repo/openllm'' ''/tmp/stage/''])
   \<and> (\<exists>built. build_wheels dev_world (getsyspath example_fs ''/'')
                  [''openllm_core'', ''openllm_client'', ''openllm''] []
                = (Inr built, [BuildWheel ''/repo/openllm_core'' ''/tmp/stage/'',
                               BuildWheel ''/repo/openllm_client'' ''/tmp/stage/'',
                               BuildWheel ''/repo/openllm'' ''/tmp/stage/''])
         \<and> length built = 3 \<and> (\<forall>b \<in> set built. b \<noteq> None \<and> b \<noteq> Some []))"
proof -
  have f: "\<not> check_bool_env release_world OPENLLM_DEV_BUILD False"
    by (simp add: release_world_def)
  note T = construct_python_options_wheels
  from T[of release_world example_llm example_fs None None "[]", THEN conjunct1, THEN mp, OF f]
  have a: "\<exists>opts. construct_python_options release_world example_llm example_fs None None []
               = (Inr opts, []) \<and> wheels opts = None" .
  from T[of dev_world example_llm example_fs None None "[]", THEN conjunct2, THEN spec, THEN spec,
         THEN mp, OF dev_python_options]
  have b: "\<exists>built. build_wheels dev_world (getsyspath example_fs ''/'')
                  [''openllm_core'', ''openllm_client'', ''openllm''] []
                = (Inr built, [BuildWheel ''/repo/openllm_core'' ''/tmp/stage/'',
                               BuildWheel ''/repo/openllm_client'' ''/tmp/stage/'',
                               BuildWheel ''/repo/openllm'' ''/tmp/stage/''])
         \<and> length built = 3 \<and> (\<forall>b \<in> set built. b \<noteq> None \<and> b \<noteq> Some [])"
    by (elim exE conjE, intro exI conjI) simp_all
  show ?thesis by (intro conjI f a dev_python_options b)
qed

section \<open>The Docker options\<close>

text \<open>
  C4. Whenever \<open>construct_docker_options\<close> returns, the environment of its Docker options
  has no \<open>BENTOML_HOME\<close> and maps \<open>NVIDIA_DRIVER_CAPABILITIES\<close> to \<open>compute,utility\<close>,
  whatever \<open>process_environ\<close> produced and whatever the other arguments are.
\<close>

theorem construct_docker_options_env:
  assumes "construct_docker_options w l fs quantize adapter_map dockerfile_templ serialisation
           = Inr d"
  shows "env d ''BENTOML_HOME'' = None
       \<and> env d ''NVIDIA_DRIVER_CAPABILITIES'' = Some ''compute,utility''"
proof -
  let ?e = "process_environ w
            \<lparr>pe_config = config l, pe_server_timeout = cfg_timeout (config l),
             pe_process_workers = 1, pe_device = None, pe_cors_enabled = True,
             pe_model_id = model_id l, pe_adapter_map = None,
             pe_serialisation = llm_serialisation l, pe_llm = l, pe_use_current_env = False\<rparr>"
  show ?thesis
  proof (cases "?e ''OPENLLM_CONFIG''")
    case None
    with assms show ?thesis by (simp add: construct_docker_options_def Let_def)
  next
    case (Some c)
    with assms have "env d = (?e(''OPENLLM_CONFIG'' \<mapsto> [CHR 0x27] @ c @ [CHR 0x27],
                                  ''BENTOML_HOME'' := None,
                                  ''NVIDIA_DRIVER_CAPABILITIES'' \<mapsto> ''compute,utility''))"
      by (auto simp: construct_docker_options_def Let_def)
    then show ?thesis by simp
  qed
qed

theorem construct_docker_options_env_witness:
  "\<exists>d. construct_docker_options release_world example_llm example_fs None None None
          ''safetensors'' = Inr d
       \<and> env d ''BENTOML_HOME'' = None
       \<and> env d ''NVIDIA_DRIVER_CAPABILITIES'' = Some ''compute,utility''
       \<and> env d ''OPENLLM_CONFIG'' = Some [CHR 0x27, CHR ''{'', CHR ''}'', CHR 0x27]
       \<and> env d ''OPENLLM_MODEL_ID'' = Some ''facebook/opt-125m''"
proof -
  obtain d where d: "construct_docker_options release_world example_llm example_fs None None None
          ''safetensors'' = Inr d"
    and o: "env d ''OPENLLM_CONFIG'' = Some [CHR 0x27, CHR ''{'', CHR ''}'', CHR 0x27]"
           "env d ''OPENLLM_MODEL_ID'' = Some ''facebook/opt-125m''"
    by (simp add: construct_docker_options_def release_world_def example_llm_def Let_def)
  from construct_docker_options_env[OF d] d o show ?thesis by simp
qed

section \<open>The falcon package\<close>

text \<open>
  C8. The import structure of the falcon package always has the entry of the configuration
  module with its three names, and has the entry of the modeling module (\<open>Falcon\<close>)
  exactly when torch is available; nothing else decides it, and the module never raises.
\<close>

theorem falcon_import_structure:
  "import_structure torch_available
   = Inr (if torch_available
          then [(''configuration_falcon'',
                 [''FalconConfig'', ''START_FALCON_COMMAND_DOCSTRING'', ''DEFAULT_PROMPT_TEMPLATE'']),
                (''modeling_falcon'', [''Falcon''])]
          else [(''configuration_falcon'',
                 [''FalconConfig'', ''START_FALCON_COMMAND_DOCSTRING'', ''DEFAULT_PROMPT_TEMPLATE''])])
   \<and> ((''modeling_falcon'', [''Falcon''])
          \<in> set (case import_structure torch_available of Inl e \<Rightarrow> [] | Inr entries \<Rightarrow> entries))
       = torch_available"
  by (simp add: import_structure_def torch_check_def)

section \<open>The generated script\<close>

lemma service_vars_script_eq:
  "service_vars_script w l am =
     Inr (''# fmt: off'' @ [CHR 0x0A] @ ''# GENERATED BY 'openllm build '' @ model_id l
          @ [CHR 0x27] @ ''. DO NOT EDIT'' @ [CHR 0x0A]
          @ ''import orjson;model_id,model_tag,adapter_map,serialization,trust_remote_code,max_model_len,gpu_memory_utilization=''
          @ [CHR 0x27] @ model_id l @ [CHR 0x27] @ '','' @ [CHR 0x27] @ str_tag w (llm_tag l) @ [CHR 0x27]
          @ '',orjson.loads('' @ [CHR 0x22, CHR 0x22, CHR 0x22] @ orjson_dumps w am
          @ [CHR 0x22, CHR 0x22, CHR 0x22] @ ''),'' @ [CHR 0x27] @ cfg_serialisation (config l) @ [CHR 0x27]
          @ '','' @ str_bool (trust_remote_code l) @ '','' @ str_opt_int (max_model_len l)
          @ '','' @ str_float w (gpu_memory_utilization l))"
  by (simp add: service_vars_script_def SERVICE_VARS_def)

lemma str_nat_digits: "set (str_nat n) \<subseteq> set ''0123456789''"
proof (induction n rule: str_nat.induct)
  case (1 n)
  have d: "\<And>k. k < 10 \<Longrightarrow> ''0123456789'' ! k \<in> set ''0123456789''"
    by (rule nth_mem) simp
  show ?case
  proof (cases "n < 10")
    case True
    then show ?thesis using d[of n] by (subst str_nat.simps) simp
  next
    case False
    have "n mod 10 < 10" by simp
    with 1 False d[of "n mod 10"] show ?thesis
      by (subst str_nat.simps) auto
  qed
qed

lemma str_opt_int_no_newline: "CHR 0x0A \<notin> set (str_opt_int v)"
  using str_nat_digits by (auto simp: str_opt_int_def str_int_def split: option.splits)

lemma str_bool_no_newline: "CHR 0x0A \<notin> set (str_bool b)"
  by (simp add: str_bool_def)

section \<open>The labels\<close>

lemma dict_update_apply:
  "dict_update d kvs k = (case map_of (rev kvs) k of None \<Rightarrow> d k | Some v \<Rightarrow> Some v)"
proof (induction kvs arbitrary: d)
  case Nil
  then show ?case by (simp add: dict_update_def)
next
  case (Cons kv kvs)
  have "dict_update d (kv # kvs) k = dict_update (d(fst kv \<mapsto> snd kv)) kvs k"
    by (simp add: dict_update_def)
  also have "\<dots> = (case map_of (rev kvs) k of None \<Rightarrow> (d(fst kv \<mapsto> snd kv)) k | Some v \<Rightarrow> Some v)"
    by (rule Cons.IH)
  also have "\<dots> = (case map_of (rev (kv # kvs)) k of None \<Rightarrow> d k | Some v \<Rightarrow> Some v)"
    by (cases kv) (simp add: map_add_def split: option.splits)
  finally show ?case .
qed

lemma dict_update_absent:
  "k \<notin> fst ` set kvs \<Longrightarrow> dict_update d kvs k = d k"
  by (simp add: dict_update_apply map_of_eq_None_iff[THEN iffD2])

lemma dict_update_dom: "d k \<noteq> None \<Longrightarrow> dict_update d kvs k \<noteq> None"
  by (simp add: dict_update_apply split: option.splits)

lemma label_entries_eq:
  "label_entries w l =
     [(''_type'', llm_type l),
      (''_framework'', llm_backend l),
      (''start_name'', cfg_start_name (config l)),
      (''base_name_or_path'', model_id l),
      (''bundler'', ''openllm.bundle''),
      (''openllm_version'', metadata_version w ''openllm''),
      (''openllm_core_version'', metadata_version w ''openllm-core''),
      (''openllm_client_version'', metadata_version w ''openllm-client'')]"
  by (simp add: label_entries_def replace_chr_def)

lemma label_entries_distinct: "distinct (map fst (rev (label_entries w l)))"
  unfolding label_entries_eq by simp

lemma labels1_apply:
  assumes "(k, v) \<in> set (label_entries w l)"
  shows "dict_update d (label_entries w l) k = Some v"
proof -
  from assms have "(k, v) \<in> set (rev (label_entries w l))" by simp
  with label_entries_distinct have "map_of (rev (label_entries w l)) k = Some v"
    by (rule map_of_is_SomeI)
  then show ?thesis by (simp add: dict_update_apply)
qed

lemma bento_labels_entries:
  assumes "(k, v) \<in> set (label_entries w l)"
  shows "bento_labels w l am k \<noteq> None"
    and "k \<notin> fst ` set (case am of None \<Rightarrow> [] | Some kvs \<Rightarrow> kvs) \<Longrightarrow> bento_labels w l am k = Some v"
proof -
  let ?d = "dict_update Map.empty (identifying_params l)"
  have 1: "dict_update ?d (label_entries w l) k = Some v" by (rule labels1_apply[OF assms])
  show "bento_labels w l am k \<noteq> None"
  proof (cases am)
    case None
    with 1 show ?thesis by (simp add: bento_labels_def Let_def)
  next
    case (Some kvs)
    from 1 have "dict_update ?d (label_entries w l) k \<noteq> None" by simp
    then have "dict_update (dict_update ?d (label_entries w l)) kvs k \<noteq> None"
      by (rule dict_update_dom)
    with 1 Some show ?thesis by (simp add: bento_labels_def Let_def)
  qed
  assume a: "k \<notin> fst ` set (case am of None \<Rightarrow> [] | Some kvs \<Rightarrow> kvs)"
  show "bento_labels w l am k = Some v"
  proof (cases am)
    case None
    with 1 show ?thesis by (simp add: bento_labels_def Let_def)
  next
    case (Some kvs)
    with a have "k \<notin> fst ` set kvs" by simp
    then have "dict_update (dict_update ?d (label_entries w l)) kvs k = Some v"
      using 1 by (simp add: dict_update_absent)
    with 1 Some show ?thesis by (simp add: bento_labels_def Let_def)
  qed
qed

lemma bento_labels_clash:
  assumes "am = Some kvs" and "k \<in> fst ` set kvs"
  shows "bento_labels w l am k = map_of (rev kvs) k"
    and "\<exists>a. (k, a) \<in> set kvs \<and> bento_labels w l am k = Some a"
proof -
  from assms(2) have ne: "kvs \<noteq> []" by auto
  from assms(2) have "k \<in> fst ` set (rev kvs)" by simp
  then have "map_of (rev kvs) k \<noteq> None" by (simp only: map_of_eq_None_iff not_not)
  then obtain a where a: "map_of (rev kvs) k = Some a" by auto
  then have m: "(k, a) \<in> set kvs" using map_of_SomeD[of "rev kvs" k a] by simp
  have "bento_labels w l am k
        = dict_update (dict_update (dict_update Map.empty (identifying_params l))
                         (label_entries w l)) kvs k"
    using assms(1) ne by (simp add: bento_labels_def Let_def)
  also have "\<dots> = map_of (rev kvs) k"
    using a by (simp add: dict_update_apply)
  finally show 1: "bento_labels w l am k = map_of (rev kvs) k" .
  from 1 a m show "\<exists>a. (k, a) \<in> set kvs \<and> bento_labels w l am k = Some a" by auto
qed

lemma create_bento_args_labels:
  assumes "create_bento_args w bt fs l q dt am ed ser t = (Inr req, t')"
  shows "bc_labels (br_build_config req) = bento_labels w l am"
proof -
  obtain script where s: "service_vars_script w l am = Inr script"
    using assms by (cases "service_vars_script w l am") (simp_all add: create_bento_args_def Let_def)
  let ?t2 = "t @ [WriteText ''_service_vars.py'' script] @ [WriteText (cfg_service_name (config l)) (service_src w)]"
  obtain rp tp where p: "construct_python_options w l fs ed am ?t2 = (rp, tp)"
    by (cases "construct_python_options w l fs ed am ?t2")
  show ?thesis
  proof (cases rp)
    case (Inl e)
    with assms s p show ?thesis by (simp add: create_bento_args_def Let_def)
  next
    case (Inr py)
    show ?thesis
    proof (cases "construct_docker_options w l fs q am dt (first_not_none w ser (cfg_serialisation (config l)))")
      case (Inl e)
      with assms s p Inr show ?thesis by (simp add: create_bento_args_def Let_def)
    next
      case (Inr dk)
      with assms s p \<open>rp = Inr py\<close> show ?thesis
        by (auto simp add: create_bento_args_def Let_def)
    qed
  qed
qed


lemma create_bento_of_args:
  "create_bento_args w bt fs l q dt am ed ser t = (Inr req, t')
   \<Longrightarrow> create_bento w bt fs l q dt am ed ser t = (bento_create w t' req, t')"
  by (simp add: create_bento_def)

text \<open>
  C7, as stated, says that the labels map \<open>bundler\<close> to \<open>openllm.bundle\<close> in every
  invocation. The adapter map is merged into the labels last (lines 90 and 91), so an
  adapter stored under the key \<open>bundler\<close> replaces the bundler identifier.
\<close>

theorem create_bento_labels_override_counterexample:
  "labels_of (fst (create_bento release_world example_tag example_fs example_llm None None
                     (Some [(''bundler'', ''mine'')]) None None [])) ''bundler''
   = Some ''mine''"
  by (simp add: create_bento_def create_bento_args_def service_vars_script_eq
        construct_python_options_release construct_docker_options_def bento_labels_def
        dict_update_def label_entries_eq labels_of_def release_world_def Let_def)

text \<open>
  C7, amended. Whenever \<open>create_bento\<close> reaches the bundler, the labels it passes are a
  string-to-string mapping that has the keys \<open>_type\<close>, \<open>_framework\<close>, \<open>start_name\<close>,
  \<open>base_name_or_path\<close>, \<open>bundler\<close>, \<open>openllm_version\<close>, \<open>openllm_core_version\<close> and
  \<open>openllm_client_version\<close>. Each of them maps to the type, the backend, the start name,
  the model id, \<open>openllm.bundle\<close> and the installed version of its package, unless the
  adapter map has an entry under the same key: then the label is the value of that entry.
\<close>

theorem create_bento_labels:
  assumes "create_bento_args w bento_tag fs l quantize dockerfile_templ adapter_map
             extra_dependencies serialisation t = (Inr request, t')"
      and "(k, v) \<in> set [(''_type'', llm_type l),
                          (''_framework'', llm_backend l),
                          (''start_name'', cfg_start_name (config l)),
                          (''base_name_or_path'', model_id l),
                          (''bundler'', ''openllm.bundle''),
                          (''openllm_version'', metadata_version w ''openllm''),
                          (''openllm_core_version'', metadata_version w ''openllm-core''),
                          (''openllm_client_version'', metadata_version w ''openllm-client'')]"
  shows "create_bento w bento_tag fs l quantize dockerfile_templ adapter_map
             extra_dependencies serialisation t = (bento_create w t' request, t')
       \<and> bc_labels (br_build_config request) k \<noteq> None
       \<and> (k \<notin> fst ` set (case adapter_map of None \<Rightarrow> [] | Some kvs \<Rightarrow> kvs)
            \<longrightarrow> bc_labels (br_build_config request) k = Some v)
       \<and> (\<forall>kvs. adapter_map = Some kvs \<and> k \<in> fst ` set kvs
            \<longrightarrow> bc_labels (br_build_config request) k = map_of (rev kvs) k
                \<and> (\<exists>a. (k, a) \<in> set kvs \<and> bc_labels (br_build_config request) k = Some a))"
proof -
  from assms(2) have e: "(k, v) \<in> set (label_entries w l)"
    unfolding label_entries_eq .
  have L: "bc_labels (br_build_config request) = bento_labels w l adapter_map"
    by (rule create_bento_args_labels[OF assms(1)])
  have c: "\<forall>kvs. adapter_map = Some kvs \<and> k \<in> fst ` set kvs
            \<longrightarrow> bento_labels w l adapter_map k = map_of (rev kvs) k
                \<and> (\<exists>a. (k, a) \<in> set kvs \<and> bento_labels w l adapter_map k = Some a)"
  proof (intro allI impI)
    fix kvs
    assume h: "adapter_map = Some kvs \<and> k \<in> fst ` set kvs"
    from bento_labels_clash[of adapter_map kvs k w l] h
    show "bento_labels w l adapter_map k = map_of (rev kvs) k
          \<and> (\<exists>a. (k, a) \<in> set kvs \<and> bento_labels w l adapter_map k = Some a)"
      by simp
  qed
  show ?thesis
    unfolding L
    using create_bento_of_args[OF assms(1)] bento_labels_entries[OF e, of adapter_map] c
    by (intro conjI impI)
qed


lemma release_create_bento_args:
  "\<exists>request t'. create_bento_args release_world example_tag example_fs example_llm None None
                    am None None [] = (Inr request, t')"
proof -
  have f: "\<not> check_bool_env release_world OPENLLM_DEV_BUILD False"
    by (simp add: release_world_def)
  show ?thesis
    by (simp add: create_bento_args_def service_vars_script_eq
          construct_python_options_release[OF f] construct_docker_options_def Let_def)
       (simp add: release_world_def)
qed

theorem create_bento_labels_witness:
  "(\<exists>request t'. create_bento_args release_world example_tag example_fs example_llm None None
                    (Some [(''user/lora'', ''default'')]) None None [] = (Inr request, t')
      \<and> bc_labels (br_build_config request) ''bundler'' = Some ''openllm.bundle''
      \<and> bc_labels (br_build_config request) ''openllm_core_version'' = Some ''0.4.44'')
   \<and> (\<exists>request t'. create_bento_args release_world example_tag example_fs example_llm None None
                    (Some [(''user/lora'', ''default''), (''_type'', ''lora'')]) None None []
                  = (Inr request, t')
      \<and> bc_labels (br_build_config request) ''_type'' = Some ''lora''
      \<and> bc_labels (br_build_config request) ''bundler'' = Some ''openllm.bundle'')"
proof -
  from release_create_bento_args obtain request t' where
    a: "create_bento_args release_world example_tag example_fs example_llm None None
          (Some [(''user/lora'', ''default'')]) None None [] = (Inr request, t')" by blast
  have a1: "bc_labels (br_build_config request) ''bundler'' = Some ''openllm.bundle''"
    using create_bento_labels[OF a, of "''bundler''" "''openllm.bundle''"] by simp
  have a2: "bc_labels (br_build_config request) ''openllm_core_version'' = Some ''0.4.44''"
    using create_bento_labels[OF a, of "''openllm_core_version''" "''0.4.44''"]
    by (simp add: release_world_def)
  from release_create_bento_args obtain request2 t2 where
    b: "create_bento_args release_world example_tag example_fs example_llm None None
          (Some [(''user/lora'', ''default''), (''_type'', ''lora'')]) None None []
        = (Inr request2, t2)" by blast
  have b1: "bc_labels (br_build_config request2) ''_type'' = Some ''lora''"
    using create_bento_labels[OF b, of "''_type''" "''opt''"]
    by (simp add: example_llm_def)
  have b2: "bc_labels (br_build_config request2) ''bundler'' = Some ''openllm.bundle''"
    using create_bento_labels[OF b, of "''bundler''" "''openllm.bundle''"] by simp
  have A: "\<exists>request t'. create_bento_args release_world example_tag example_fs example_llm None None
                    (Some [(''user/lora'', ''default'')]) None None [] = (Inr request, t')
      \<and> bc_labels (br_build_config request) ''bundler'' = Some ''openllm.bundle''
      \<and> bc_labels (br_build_config request) ''openllm_core_version'' = Some ''0.4.44''"
    by (intro exI conjI) (rule a, rule a1, rule a2)
  have B: "\<exists>request t'. create_bento_args release_world example_tag example_fs example_llm None None
                    (Some [(''user/lora'', ''default''), (''_type'', ''lora'')]) None None []
                  = (Inr request, t')
      \<and> bc_labels (br_build_config request) ''_type'' = Some ''lora''
      \<and> bc_labels (br_build_config request) ''bundler'' = Some ''openllm.bundle''"
    by (intro exI conjI) (rule b, rule b1, rule b2)
  from A B show ?thesis by (rule conjI)
qed

section \<open>The trace of \<open>create_bento\<close>\<close>

lemma build_editable_trace: "\<exists>r. snd (build_editable w path p t) = t @ r"
  by (simp add: build_editable_def Let_def split: option.splits sum.splits)

lemma build_wheels_trace: "\<exists>r. snd (build_wheels w path ps t) = t @ r"
proof (induction ps arbitrary: t)
  case Nil
  then show ?case by simp
next
  case (Cons p ps)
  obtain x t1 where e: "build_editable w path p t = (x, t1)" by (cases "build_editable w path p t")
  from build_editable_trace[of w path p t] e obtain r1 where r1: "t1 = t @ r1" by auto
  show ?case
  proof (cases x)
    case (Inl err)
    with e r1 show ?thesis by simp
  next
    case (Inr v)
    obtain y t2 where b: "build_wheels w path ps t1 = (y, t2)" by (cases "build_wheels w path ps t1")
    from Cons.IH[of t1] b obtain r2 where r2: "t2 = t1 @ r2" by auto
    from e Inr b r1 r2 show ?thesis by (cases y) simp_all
  qed
qed

lemma construct_python_options_trace:
  "\<exists>r. snd (construct_python_options w l fs ed am t) = t @ r"
proof -
  let ?b = "build_wheels w (getsyspath fs ''/'') [''openllm_core'', ''openllm_client'', ''openllm''] t"
  obtain y t1 where b: "?b = (y, t1)" by (cases ?b)
  from build_wheels_trace[of w "getsyspath fs ''/''"
         "[''openllm_core'', ''openllm_client'', ''openllm'']" t]
  obtain r where "snd ?b = t @ r" by (elim exE)
  with b have "t1 = t @ r" by (simp del: build_wheels.simps)
  with b show ?thesis
    by (cases y) (simp_all add: construct_python_options_def Let_def del: build_wheels.simps)
qed

lemma create_bento_args_trace:
  assumes "service_vars_script w l am = Inr script"
  shows "\<exists>rest. snd (create_bento_args w bt fs l q dt am ed ser t)
           = t @ [WriteText ''_service_vars.py'' script] @ rest"
proof -
  let ?t2 = "t @ [WriteText ''_service_vars.py'' script]
               @ [WriteText (cfg_service_name (config l)) (service_src w)]"
  obtain rp tp where p: "construct_python_options w l fs ed am ?t2 = (rp, tp)"
    by (cases "construct_python_options w l fs ed am ?t2")
  from construct_python_options_trace[of w l fs ed am ?t2] p obtain r where r: "tp = ?t2 @ r"
    by auto
  have "snd (create_bento_args w bt fs l q dt am ed ser t) = tp"
  proof (cases rp)
    case (Inl e)
    with assms p show ?thesis by (simp add: create_bento_args_def Let_def)
  next
    case (Inr py)
    with assms p show ?thesis
      by (cases "construct_docker_options w l fs q am dt
                   (first_not_none w ser (cfg_serialisation (config l)))")
         (simp_all add: create_bento_args_def Let_def)
  qed
  with r show ?thesis by simp
qed

lemma create_bento_snd:
  "snd (create_bento w bt fs l q dt am ed ser t) = snd (create_bento_args w bt fs l q dt am ed ser t)"
proof -
  obtain x t1 where a: "create_bento_args w bt fs l q dt am ed ser t = (x, t1)"
    by (cases "create_bento_args w bt fs l q dt am ed ser t")
  then show ?thesis by (cases x) (simp_all add: create_bento_def)
qed

lemma create_bento_trace:
  assumes "service_vars_script w l am = Inr script"
  shows "\<exists>rest. snd (create_bento w bt fs l q dt am ed ser t)
           = t @ [WriteText ''_service_vars.py'' script] @ rest"
  unfolding create_bento_snd by (rule create_bento_args_trace[OF assms])

section \<open>The script written by \<open>create_bento\<close>\<close>

lemma release_create_bento_trace:
  "snd (create_bento release_world example_tag example_fs l None None None None None [])
   = [WriteText ''_service_vars.py''
        (case service_vars_script release_world l None of Inl e \<Rightarrow> [] | Inr script \<Rightarrow> script),
      WriteText (cfg_service_name (config l)) ''svc = None'']"
proof -
  have f: "\<not> check_bool_env release_world OPENLLM_DEV_BUILD False"
    by (simp add: release_world_def)
  show ?thesis
    by (simp add: create_bento_snd create_bento_args_def service_vars_script_eq
          construct_python_options_release[OF f] construct_docker_options_def Let_def)
       (simp add: release_world_def)
qed

text \<open>
  C1. The statement line of the script is meant to read its values back as literals: the
  template puts the model id, the tag and the serialisation between single quotes, and
  the adapter map is JSON-encoded before it is embedded. The model id is substituted as it
  is. For a model under a path with a single quote, the first string literal of the
  statement ends at that quote (it reads \<open>/models/o\<close>, not the model id); for a model id
  with a line feed, the script has five lines instead of three, the statement broken in
  two. At these inputs the script is not the single-line assignment of literals.
\<close>

theorem create_bento_script_unescaped_model_id:
  "map (split_chr (CHR 0x0A))
     (written ''_service_vars.py''
        (snd (create_bento release_world example_tag example_fs quote_llm None None None None
                None [])))
   = [[''# fmt: off'',
       ''# GENERATED BY 'openllm build /models/o'brien/opt-125m'. DO NOT EDIT'',
       ''import orjson;model_id,model_tag,adapter_map,serialization,trust_remote_code,max_model_len,gpu_memory_utilization='/models/o'brien/opt-125m','vllm-facebook--opt-125m:27dcfa7',orjson.loads(''
         @ [CHR 0x22, CHR 0x22, CHR 0x22] @ ''null'' @ [CHR 0x22, CHR 0x22, CHR 0x22]
         @ ''),'safetensors',False,2048,0.9'']]
   \<and> map (take 2 \<circ> split_chr (CHR 0x27) \<circ> last \<circ> split_chr (CHR 0x0A))
       (written ''_service_vars.py''
          (snd (create_bento release_world example_tag example_fs quote_llm None None None None
                  None [])))
     = [[''import orjson;model_id,model_tag,adapter_map,serialization,trust_remote_code,max_model_len,gpu_memory_utilization='',
         ''/models/o'']]
   \<and> map (length \<circ> split_chr (CHR 0x0A))
       (written ''_service_vars.py''
          (snd (create_bento release_world example_tag example_fs newline_llm None None None None
                  None [])))
     = [5]"
proof -
  have n: "str_nat 2048 = ''2048''"
    by (simp add: str_nat.simps)
  have q: "service_vars_script release_world quote_llm None
           = Inr (''# fmt: off'' @ [CHR 0x0A]
                  @ ''# GENERATED BY 'openllm build /models/o'brien/opt-125m'. DO NOT EDIT''
                  @ [CHR 0x0A]
                  @ ''import orjson;model_id,model_tag,adapter_map,serialization,trust_remote_code,max_model_len,gpu_memory_utilization='/models/o'brien/opt-125m','vllm-facebook--opt-125m:27dcfa7',orjson.loads(''
                  @ [CHR 0x22, CHR 0x22, CHR 0x22] @ ''null'' @ [CHR 0x22, CHR 0x22, CHR 0x22]
                  @ ''),'safetensors',False,2048,0.9'')"
    by (simp add: service_vars_script_eq)
       (simp add: release_world_def quote_llm_def example_llm_def example_dumps_def str_bool_def
          str_opt_int_def str_int_def n)
  have l: "service_vars_script release_world newline_llm None
           = Inr (''# fmt: off'' @ [CHR 0x0A]
                  @ ''# GENERATED BY 'openllm build /models/opt'' @ [CHR 0x0A] @ ''125m'. DO NOT EDIT''
                  @ [CHR 0x0A]
                  @ ''import orjson;model_id,model_tag,adapter_map,serialization,trust_remote_code,max_model_len,gpu_memory_utilization='/models/opt''
                  @ [CHR 0x0A] @ ''125m','vllm-facebook--opt-125m:27dcfa7',orjson.loads(''
                  @ [CHR 0x22, CHR 0x22, CHR 0x22] @ ''null'' @ [CHR 0x22, CHR 0x22, CHR 0x22]
                  @ ''),'safetensors',False,2048,0.9'')"
    by (simp add: service_vars_script_eq)
       (simp add: release_world_def newline_llm_def example_llm_def example_dumps_def str_bool_def
          str_opt_int_def str_int_def n)
  show ?thesis
    unfolding release_create_bento_trace q l
    by (simp add: quote_llm_def newline_llm_def example_llm_def)
qed

text \<open>
  C5. Two invocations of \<open>create_bento\<close> for the same model id, tag, serialisation, trust
  flag, maximal model length and GPU memory utilisation and the same adapter map write the
  same script, byte for byte, whatever the other arguments, the effects so far and the
  rest of the environment are, as long as \<open>orjson.dumps\<close> and \<open>str\<close> are the same functions.
\<close>

theorem create_bento_script_deterministic:
  assumes "model_id l = model_id l'"
      and "llm_tag l = llm_tag l'"
      and "cfg_serialisation (config l) = cfg_serialisation (config l')"
      and "trust_remote_code l = trust_remote_code l'"
      and "max_model_len l = max_model_len l'"
      and "gpu_memory_utilization l = gpu_memory_utilization l'"
      and "orjson_dumps w = orjson_dumps w'"
      and "str_tag w = str_tag w'"
      and "str_float w = str_float w'"
  shows "\<exists>script rest rest'.
           snd (create_bento w bento_tag fs l quantize dockerfile_templ adapter_map
                  extra_dependencies serialisation t)
           = t @ [WriteText ''_service_vars.py'' script] @ rest
         \<and> snd (create_bento w' bento_tag' fs' l' quantize' dockerfile_templ' adapter_map
                  extra_dependencies' serialisation' t')
           = t' @ [WriteText ''_service_vars.py'' script] @ rest'"
proof -
  obtain script where s: "service_vars_script w l adapter_map = Inr script"
    by (simp add: service_vars_script_eq)
  have "service_vars_script w' l' adapter_map = service_vars_script w l adapter_map"
    unfolding service_vars_script_eq using assms by simp
  with s have s': "service_vars_script w' l' adapter_map = Inr script" by simp
  from create_bento_trace[OF s, of bento_tag fs quantize dockerfile_templ extra_dependencies
         serialisation t]
  obtain rest where r: "snd (create_bento w bento_tag fs l quantize dockerfile_templ adapter_map
                  extra_dependencies serialisation t)
           = t @ [WriteText ''_service_vars.py'' script] @ rest" by (elim exE)
  from create_bento_trace[OF s', of bento_tag' fs' quantize' dockerfile_templ' extra_dependencies'
         serialisation' t']
  obtain rest' where r': "snd (create_bento w' bento_tag' fs' l' quantize' dockerfile_templ'
                  adapter_map extra_dependencies' serialisation' t')
           = t' @ [WriteText ''_service_vars.py'' script] @ rest'" by (elim exE)
  show ?thesis by (intro exI conjI) (rule r, rule r')
qed

theorem create_bento_script_deterministic_witness:
  "model_id example_llm = model_id (example_llm\<lparr>llm_backend := ''pt''\<rparr>)
   \<and> llm_tag example_llm = llm_tag (example_llm\<lparr>llm_backend := ''pt''\<rparr>)
   \<and> cfg_serialisation (config example_llm)
       = cfg_serialisation (config (example_llm\<lparr>llm_backend := ''pt''\<rparr>))
   \<and> trust_remote_code example_llm = trust_remote_code (example_llm\<lparr>llm_backend := ''pt''\<rparr>)
   \<and> max_model_len example_llm = max_model_len (example_llm\<lparr>llm_backend := ''pt''\<rparr>)
   \<and> gpu_memory_utilization example_llm
       = gpu_memory_utilization (example_llm\<lparr>llm_backend := ''pt''\<rparr>)
   \<and> orjson_dumps release_world = orjson_dumps dev_world
   \<and> str_tag release_world = str_tag dev_world
   \<and> str_float release_world = str_float dev_world
   \<and> (\<exists>script rest rest'.
         snd (create_bento release_world example_tag example_fs example_llm None None None None
                None [])
         = [] @ [WriteText ''_service_vars.py'' script] @ rest
       \<and> snd (create_bento dev_world example_tag example_fs (example_llm\<lparr>llm_backend := ''pt''\<rparr>)
                (Some ''int8'') None None (Some [''gptq'']) (Some ''legacy'')
                [BuildWheel ''/repo/openllm'' ''/tmp/stage/''])
         = [BuildWheel ''/repo/openllm'' ''/tmp/stage/''] @ [WriteText ''_service_vars.py'' script]
           @ rest')"
proof -
  have h1: "model_id example_llm = model_id (example_llm\<lparr>llm_backend := ''pt''\<rparr>)" by simp
  have h2: "llm_tag example_llm = llm_tag (example_llm\<lparr>llm_backend := ''pt''\<rparr>)" by simp
  have h3: "cfg_serialisation (config example_llm)
       = cfg_serialisation (config (example_llm\<lparr>llm_backend := ''pt''\<rparr>))" by simp
  have h4: "trust_remote_code example_llm
       = trust_remote_code (example_llm\<lparr>llm_backend := ''pt''\<rparr>)" by simp
  have h5: "max_model_len example_llm = max_model_len (example_llm\<lparr>llm_backend := ''pt''\<rparr>)"
    by simp
  have h6: "gpu_memory_utilization example_llm
       = gpu_memory_utilization (example_llm\<lparr>llm_backend := ''pt''\<rparr>)" by simp
  have h7: "orjson_dumps release_world = orjson_dumps dev_world"
    by (simp add: dev_world_def)
  have h8: "str_tag release_world = str_tag dev_world"
    by (simp add: dev_world_def)
  have h9: "str_float release_world = str_float dev_world"
    by (simp add: dev_world_def)
  note T = create_bento_script_deterministic[OF h1 h2 h3 h4 h5 h6 h7 h8 h9,
             of example_tag example_fs None None None None None "[]"
                example_tag example_fs "Some ''int8''" None "Some [''gptq'']" "Some ''legacy''"
                "[BuildWheel ''/repo/openllm'' ''/tmp/stage/'']"]
  show ?thesis by (intro conjI h1 h2 h3 h4 h5 h6 h7 h8 h9 T)
qed

text \<open>
  C9. The serialisation embedded in the script is \<open>llm.config['serialisation']\<close>. The
  \<open>serialisation\<close> argument of \<open>create_bento\<close> does not reach the script: with any other
  value of it the same texts are written, and the effects are the same.
\<close>

theorem create_bento_script_serialisation:
  "\<exists>rest.
     snd (create_bento w bento_tag fs l quantize dockerfile_templ adapter_map
            extra_dependencies serialisation t)
     = t @ [WriteText ''_service_vars.py''
              (''# fmt: off'' @ [CHR 0x0A] @ ''# GENERATED BY 'openllm build '' @ model_id l
               @ [CHR 0x27] @ ''. DO NOT EDIT'' @ [CHR 0x0A]
               @ ''import orjson;model_id,model_tag,adapter_map,serialization,trust_remote_code,max_model_len,gpu_memory_utilization=''
               @ [CHR 0x27] @ model_id l @ [CHR 0x27] @ '','' @ [CHR 0x27]
               @ str_tag w (llm_tag l) @ [CHR 0x27] @ '',orjson.loads(''
               @ [CHR 0x22, CHR 0x22, CHR 0x22] @ orjson_dumps w adapter_map
               @ [CHR 0x22, CHR 0x22, CHR 0x22] @ ''),'' @ [CHR 0x27]
               @ cfg_serialisation (config l) @ [CHR 0x27] @ '',''
               @ str_bool (trust_remote_code l) @ '','' @ str_opt_int (max_model_len l)
               @ '','' @ str_float w (gpu_memory_utilization l))] @ rest
   \<and> written ''_service_vars.py''
        (snd (create_bento w bento_tag fs l quantize dockerfile_templ adapter_map
                extra_dependencies serialisation' t))
     = written ''_service_vars.py''
        (snd (create_bento w bento_tag fs l quantize dockerfile_templ adapter_map
                extra_dependencies serialisation t))
   \<and> snd (create_bento w bento_tag fs l quantize dockerfile_templ adapter_map
            extra_dependencies serialisation' t)
     = snd (create_bento w bento_tag fs l quantize dockerfile_templ adapter_map
            extra_dependencies serialisation t)"
proof -
  have same: "snd (create_bento_args w bento_tag fs l quantize dockerfile_templ adapter_map
            extra_dependencies serialisation' t)
     = snd (create_bento_args w bento_tag fs l quantize dockerfile_templ adapter_map
            extra_dependencies serialisation t)"
    by (simp add: create_bento_args_def construct_docker_options_def Let_def
          split: sum.splits prod.splits option.splits)
  have tr: "snd (create_bento w bento_tag fs l quantize dockerfile_templ adapter_map
            extra_dependencies serialisation' t)
     = snd (create_bento w bento_tag fs l quantize dockerfile_templ adapter_map
            extra_dependencies serialisation t)"
    unfolding create_bento_snd by (rule same)
  from create_bento_trace[OF service_vars_script_eq, of w bento_tag fs l quantize dockerfile_templ
         adapter_map extra_dependencies serialisation t]
  show ?thesis unfolding tr by (elim exE, intro exI conjI) (assumption, rule refl, rule refl)
qed

end
